theory Spec2Isabelle
  imports Main "HOL-Library.Word"
begin

text \<open>
  The source, \<open>api/emma.js\<close>, holds two variants of one request handler: the first
  (lines 1-135), and the second (lines 136-281), which adds a health probe on GET, cuts
  the upstream diagnostics to 2000 characters and refuses an empty generated text.
  Definitions of one variant carry the suffix \<open>_v1\<close> or \<open>_v2\<close>; what the variants share
  is defined once. A run of the handler is a function of the request, the environment and
  the two upstream services; it returns the response and the outbound calls made, in order.
\<close>

section \<open>JavaScript strings\<close>

text \<open>
  A JavaScript string is a sequence of UTF-16 code units. \<open>trim\<close>, \<open>slice\<close>,
  \<open>length\<close> and a regular expression without the \<open>u\<close> flag work on code units; a
  regular expression with the \<open>u\<close> flag reads the string as code points, a high
  surrogate directly followed by a low surrogate being one code point and any other
  unit a code point of its own.
\<close>

type_synonym jsstring = "16 word list"

definition js :: "string \<Rightarrow> jsstring" where
  "js s = map of_char s"

definition is_high :: "16 word \<Rightarrow> bool" where
  "is_high u \<longleftrightarrow> 0xD800 \<le> unat u \<and> unat u \<le> 0xDBFF"

definition is_low :: "16 word \<Rightarrow> bool" where
  "is_low u \<longleftrightarrow> 0xDC00 \<le> unat u \<and> unat u \<le> 0xDFFF"

definition pair_cp :: "16 word \<Rightarrow> 16 word \<Rightarrow> nat" where
  "pair_cp h l = 0x10000 + (unat h - 0xD800) * 0x400 + (unat l - 0xDC00)"

text \<open>The code points of a string, as a \<open>u\<close>-flag regular expression iterates them.\<close>

fun code_points :: "jsstring \<Rightarrow> nat list" where
  "code_points [] = []"
| "code_points [u] = [unat u]"
| "code_points (u # v # rest) =
     (if is_high u \<and> is_low v then pair_cp u v # code_points rest
      else unat u # code_points (v # rest))"

text \<open>\<open>String.prototype.isWellFormed\<close>: no unpaired surrogate.\<close>

definition well_formed :: "jsstring \<Rightarrow> bool" where
  "well_formed s = list_all (\<lambda>cp. \<not> (0xD800 \<le> cp \<and> cp \<le> 0xDFFF)) (code_points s)"

text \<open>
  \<open>s.replace(/[...]/gu, "")\<close> for a character class \<open>cls\<close> of code points: the scan
  goes left to right by code point and deletes each one in the class.
\<close>

fun replace_u :: "(nat \<Rightarrow> bool) \<Rightarrow> jsstring \<Rightarrow> jsstring" where
  "replace_u cls [] = []"
| "replace_u cls [u] = (if cls (unat u) then [] else [u])"
| "replace_u cls (u # v # rest) =
     (if is_high u \<and> is_low v
      then (if cls (pair_cp u v) then replace_u cls rest else u # v # replace_u cls rest)
      else (if cls (unat u) then replace_u cls (v # rest) else u # replace_u cls (v # rest)))"

text \<open>
  The code units that \<open>\s\<close> matches and that \<open>trim\<close> strips (ECMAScript WhiteSpace
  and LineTerminator).
\<close>

definition is_ws :: "16 word \<Rightarrow> bool" where
  "is_ws u \<longleftrightarrow>
     u \<in> {0x09, 0x0A, 0x0B, 0x0C, 0x0D, 0x20, 0xA0, 0x1680, 0x2028, 0x2029, 0x202F, 0x205F,
          0x3000, 0xFEFF}
     \<or> (0x2000 \<le> unat u \<and> unat u \<le> 0x200A)"

definition trim :: "jsstring \<Rightarrow> jsstring" where
  "trim s = rev (dropWhile is_ws (rev (dropWhile is_ws s)))"

text \<open>\<open>s.replace(/\s+/g, " ")\<close>: every maximal run of whitespace becomes one space.\<close>

function collapse_ws :: "jsstring \<Rightarrow> jsstring" where
  "collapse_ws [] = []"
| "collapse_ws (u # us) =
     (if is_ws u then 0x20 # collapse_ws (dropWhile is_ws us) else u # collapse_ws us)"
  by pat_completeness auto
termination
  by (relation "measure length") (auto simp: le_imp_less_Suc length_dropWhile_le)

text \<open>\<open>s.slice(0, n)\<close> on a string.\<close>

definition slice0 :: "nat \<Rightarrow> jsstring \<Rightarrow> jsstring" where
  "slice0 n s = take n s"

section \<open>Sanitization (\<open>stripEmojis\<close> and its call site)\<close>

definition pictograph :: "nat \<Rightarrow> bool" where
  "pictograph cp \<longleftrightarrow> 0x1F300 \<le> cp \<and> cp \<le> 0x1FAFF"

definition misc_symbol :: "nat \<Rightarrow> bool" where
  "misc_symbol cp \<longleftrightarrow> 0x2600 \<le> cp \<and> cp \<le> 0x27BF"

definition variation_selector :: "nat \<Rightarrow> bool" where
  "variation_selector cp \<longleftrightarrow> cp = 0xFE0F"

definition not_angle :: "16 word \<Rightarrow> bool" where
  "not_angle u \<longleftrightarrow> u \<noteq> 0x3C \<and> u \<noteq> 0x3E"

text \<open>The three \<open>u\<close>-flag replacements that both variants of \<open>stripEmojis\<close> start with.\<close>

definition strip_ranges :: "jsstring \<Rightarrow> jsstring" where
  "strip_ranges s = replace_u variation_selector (replace_u misc_symbol (replace_u pictograph s))"

text \<open>First variant (lines 125-135): also \<open>.replace(/[<>]/g, "")\<close>, then \<open>.trim()\<close>.\<close>

definition stripEmojis_v1 :: "jsstring \<Rightarrow> jsstring" where
  "stripEmojis_v1 s = trim (filter not_angle (strip_ranges s))"

text \<open>Second variant (lines 275-281).\<close>

definition stripEmojis_v2 :: "jsstring \<Rightarrow> jsstring" where
  "stripEmojis_v2 s = trim (strip_ranges s)"

text \<open>
  The sanitization of the handler:
  \<open>stripEmojis(s.trim()).replace(/\s+/g, " ").trim()\<close>, where \<open>s\<close> is
  \<open>String(rawText || "")\<close>.
\<close>

definition sanitize_v1 :: "jsstring \<Rightarrow> jsstring" where
  "sanitize_v1 s = trim (collapse_ws (stripEmojis_v1 (trim s)))"

definition sanitize_v2 :: "jsstring \<Rightarrow> jsstring" where
  "sanitize_v2 s = trim (collapse_ws (stripEmojis_v2 (trim s)))"

text \<open>No code point of the two ranges and no variation selector U+FE0F.\<close>

definition emoji_free :: "jsstring \<Rightarrow> bool" where
  "emoji_free s =
     list_all (\<lambda>cp. \<not> pictograph cp \<and> \<not> misc_symbol cp \<and> \<not> variation_selector cp)
       (code_points s)"

section \<open>JSON values\<close>

text \<open>
  The values \<open>JSON.parse\<close> produces. A number is carried by what the handler can
  observe of it: whether it is zero (the only falsy number JSON can denote) and the text
  \<open>String\<close> gives for it. \<open>undefined\<close> is \<open>None\<close> of \<open>json option\<close>.
\<close>

datatype json =
    JNull
  | JBool bool
  | JNum bool jsstring
  | JStr jsstring
  | JArr "json list"
  | JObj "(jsstring \<times> json) list"

fun truthy :: "json \<Rightarrow> bool" where
  "truthy JNull = False"
| "truthy (JBool b) = b"
| "truthy (JNum zero txt) = (\<not> zero)"
| "truthy (JStr s) = (s \<noteq> [])"
| "truthy (JArr xs) = True"
| "truthy (JObj kvs) = True"

fun join_comma :: "jsstring list \<Rightarrow> jsstring" where
  "join_comma [] = []"
| "join_comma [x] = x"
| "join_comma (x # y # rest) = x @ 0x2C # join_comma (y # rest)"

text \<open>
  \<open>String(v)\<close> and the conversion of a template literal: an array joins its elements
  with commas, \<open>null\<close> elements being empty; an object is \<open>[object Object]\<close>.
\<close>

fun to_String :: "json \<Rightarrow> jsstring" where
  "to_String JNull = js ''null''"
| "to_String (JBool b) = (if b then js ''true'' else js ''false'')"
| "to_String (JNum zero txt) = txt"
| "to_String (JStr s) = s"
| "to_String (JArr xs) = join_comma (map (\<lambda>x. if x = JNull then [] else to_String x) xs)"
| "to_String (JObj kvs) = js ''[object Object]''"

text \<open>
  Reading a property the handler names (\<open>lang\<close>, \<open>output_text\<close>, ...) off a value
  that is not \<open>null\<close>: an object has it or not (an object lists each of its keys once);
  a string, number, boolean or array has none of these names.
\<close>

fun get_prop :: "json \<Rightarrow> jsstring \<Rightarrow> json option" where
  "get_prop (JObj kvs) k = map_of kvs k"
| "get_prop v k = None"

text \<open>
  A thrown value \<open>e\<close> is carried by the text the \<open>catch\<close> clause makes of it,
  \<open>String(e?.message || e)\<close>.
\<close>

type_synonym thrown = jsstring

text \<open>
  What the handler calls of the JavaScript runtime and is not modelled further:
  \<open>JSON.stringify\<close>, and the \<open>TypeError\<close> raised when a property of \<open>null\<close> is read
  or a method the value does not have is called.
\<close>

record runtime =
  JSON_stringify :: "json \<Rightarrow> jsstring"
  type_error :: "json \<Rightarrow> thrown"

text \<open>
  \<open>Buffer.from(bytes).toString("base64")\<close>: RFC 4648, standard alphabet, padded. Every
  index \<open>base64\<close> passes to \<open>b64_char\<close> is below 64.
\<close>

definition b64_alphabet :: string where
  "b64_alphabet = ''ABCDEFGHIJKLMNOPQRSTUVWXYZabcdefghijklmnopqrstuvwxyz0123456789+/''"

definition b64_char :: "nat \<Rightarrow> 16 word" where
  "b64_char i = of_char (b64_alphabet ! i)"

fun base64 :: "8 word list \<Rightarrow> jsstring" where
  "base64 [] = []"
| "base64 [a] = [b64_char (unat a div 4), b64_char (unat a mod 4 * 16), 0x3D, 0x3D]"
| "base64 [a, b] =
     [b64_char (unat a div 4), b64_char (unat a mod 4 * 16 + unat b div 16),
      b64_char (unat b mod 16 * 4), 0x3D]"
| "base64 (a # b # c # rest) =
     [b64_char (unat a div 4), b64_char (unat a mod 4 * 16 + unat b div 16),
      b64_char (unat b mod 16 * 4 + unat c div 64), b64_char (unat c mod 64)] @ base64 rest"

section \<open>Request, environment, upstream services\<close>

record request =
  req_method :: jsstring
  req_body :: "json option"

text \<open>\<open>process.env\<close>: a variable is unset or a string.\<close>

record env =
  OPENAI_API_KEY :: "jsstring option"
  EMMA_TEXT_MODEL :: "jsstring option"
  EMMA_TTS_MODEL :: "jsstring option"
  EMMA_VOICE :: "jsstring option"

text \<open>\<open>process.env.X || "default"\<close>, and the truthiness test \<open>!apiKey\<close>.\<close>

definition env_truthy :: "jsstring option \<Rightarrow> bool" where
  "env_truthy v = (case v of None \<Rightarrow> False | Some s \<Rightarrow> s \<noteq> [])"

definition or_default :: "jsstring option \<Rightarrow> jsstring \<Rightarrow> jsstring" where
  "or_default v d = (case v of None \<Rightarrow> d | Some s \<Rightarrow> if s = [] then d else s)"

text \<open>
  The body of the two outbound \<open>fetch\<close> calls. \<open>gen_user\<close> is the object \<open>user\<close>,
  which the source sends as \<open>JSON.stringify(user)\<close>; the fixed parts
  (\<open>temperature: 0.7\<close>, the content type) are left out.
\<close>

record gen_call =
  gen_authorization :: jsstring
  gen_model :: jsstring
  gen_system :: jsstring
  gen_user :: json

record tts_call =
  tts_authorization :: jsstring
  tts_model :: jsstring
  tts_voice :: jsstring
  tts_input :: jsstring
  tts_format :: jsstring

datatype call = GenCall gen_call | TtsCall tts_call

text \<open>
  An upstream response: \<open>ok\<close>, and its body as \<open>text()\<close>, \<open>json()\<close> (which throws on
  a body that is not JSON) and \<open>arrayBuffer()\<close> read it. \<open>fetch\<close> itself resolves to a
  response or rejects. Reading a body that has arrived is taken not to fail.
\<close>

record reply =
  reply_ok :: bool
  reply_text :: jsstring
  reply_json :: "thrown + json"
  reply_arrayBuffer :: "8 word list"

datatype outcome = Rejects thrown | Resolves reply

record upstream =
  gen_service :: "gen_call \<Rightarrow> outcome"
  tts_service :: "tts_call \<Rightarrow> outcome"

text \<open>\<open>res.status(n).json(obj)\<close>.\<close>

record response =
  status :: nat
  payload :: json

section \<open>The handler\<close>

subsection \<open>Parts common to both variants\<close>

text \<open>\<open>req.body || {}\<close> and one destructured field with its default.\<close>

definition body_or_empty :: "json option \<Rightarrow> json" where
  "body_or_empty b = (case b of None \<Rightarrow> JObj [] | Some v \<Rightarrow> if truthy v then v else JObj [])"

definition field_or :: "json \<Rightarrow> jsstring \<Rightarrow> json \<Rightarrow> json" where
  "field_or obj k d = (case get_prop obj k of None \<Rightarrow> d | Some v \<Rightarrow> v)"

record fields =
  lang :: json
  age_band :: json
  child_id :: json
  transcript :: json
  drawing_summary :: json
  last_events :: json

definition destructure :: "json option \<Rightarrow> fields" where
  "destructure b =
     (let obj = body_or_empty b in
      \<lparr> lang = field_or obj (js ''lang'') (JStr (js ''it-IT'')),
        age_band = field_or obj (js ''age_band'') (JStr (js ''3-5'')),
        child_id = field_or obj (js ''child_id'') (JStr (js ''bimbo'')),
        transcript = field_or obj (js ''transcript'') (JStr []),
        drawing_summary = field_or obj (js ''drawing_summary'') (JObj []),
        last_events = field_or obj (js ''last_events'') (JArr []) \<rparr>)"

text \<open>\<open>xs.slice(-10)\<close> on an array or a string.\<close>

definition slice_last10 :: "'a list \<Rightarrow> 'a list" where
  "slice_last10 xs = drop (length xs - 10) xs"

definition user_payload :: "fields \<Rightarrow> json \<Rightarrow> json" where
  "user_payload f recent =
     JObj [(js ''child_profile'',
              JObj [(js ''child_id'', child_id f), (js ''age_band'', age_band f),
                    (js ''lang'', lang f)]),
           (js ''drawing_summary'', drawing_summary f),
           (js ''child_spoken_signal'', transcript f),
           (js ''recent_events'', recent)]"

definition bearer :: "jsstring \<Rightarrow> jsstring" where
  "bearer apiKey = js ''Bearer '' @ apiKey"

definition json_reply :: "nat \<Rightarrow> (jsstring \<times> json) list \<Rightarrow> response" where
  "json_reply code kvs = \<lparr> status = code, payload = JObj kvs \<rparr>"

definition method_not_allowed :: response where
  "method_not_allowed = json_reply 405 [(js ''error'', JStr (js ''Method not allowed''))]"

definition server_error :: "thrown \<Rightarrow> response" where
  "server_error e =
     json_reply 500 [(js ''error'', JStr (js ''Server error'')), (js ''details'', JStr e)]"

definition success :: "jsstring \<Rightarrow> 8 word list \<Rightarrow> response" where
  "success cleanText audio =
     json_reply 200
       [(js ''text'', JStr cleanText),
        (js ''audio'',
           JObj [(js ''mime'', JStr (js ''audio/mpeg'')), (js ''base64'', JStr (base64 audio))])]"

definition tts_request :: "env \<Rightarrow> jsstring \<Rightarrow> jsstring \<Rightarrow> tts_call" where
  "tts_request e apiKey cleanText =
     \<lparr> tts_authorization = bearer apiKey,
       tts_model = or_default (EMMA_TTS_MODEL e) (js ''gpt-4o-mini-tts''),
       tts_voice = or_default (EMMA_VOICE e) (js ''alloy''),
       tts_input = cleanText,
       tts_format = js ''mp3'' \<rparr>"

text \<open>\<open>String(rawText || "")\<close>.\<close>

definition String_or_empty :: "json \<Rightarrow> jsstring" where
  "String_or_empty raw = (if truthy raw then to_String raw else [])"

definition generation_failed :: "jsstring \<Rightarrow> response" where
  "generation_failed details =
     json_reply 500
       [(js ''error'', JStr (js ''Text generation failed'')), (js ''details'', JStr details)]"

definition tts_failed :: "jsstring \<Rightarrow> jsstring \<Rightarrow> response" where
  "tts_failed details cleanText =
     json_reply 500
       [(js ''error'', JStr (js ''TTS failed'')), (js ''details'', JStr details),
        (js ''text'', JStr cleanText)]"

text \<open>
  The second outbound call and what follows it. The variants differ in the \<open>details\<close>
  of the failure only: \<open>errText\<close> in the first, \<open>errText.slice(0, 2000)\<close> in the second.
\<close>

definition synthesize ::
  "(jsstring \<Rightarrow> jsstring) \<Rightarrow> env \<Rightarrow> upstream \<Rightarrow> jsstring \<Rightarrow> call list \<Rightarrow> jsstring
     \<Rightarrow> response \<times> call list" where
  "synthesize details e up apiKey made cleanText =
     (let t = tts_request e apiKey cleanText; calls = made @ [TtsCall t] in
      case tts_service up t of
        Rejects x \<Rightarrow> (server_error x, calls)
      | Resolves r \<Rightarrow>
          if \<not> reply_ok r then (tts_failed (details (reply_text r)) cleanText, calls)
          else (success cleanText (reply_arrayBuffer r), calls))"

subsection \<open>First variant (lines 1-135)\<close>

definition ageStyle_v1 :: "json \<Rightarrow> jsstring" where
  "ageStyle_v1 band =
     (if band = JStr (js ''3-5'') then js ''very short sentences, simple words, 1 step at a time''
      else if band = JStr (js ''6-8'') then js ''short sentences, simple causal questions''
      else js ''slightly richer language, still child-friendly, encourage hypothesis'')"

definition sys_v1 :: "fields \<Rightarrow> jsstring" where
  \<open>sys_v1 f =
     js ''\<newline>You are EMMA, a gentle cognitive companion for children.\<newline>''
     @ js ''Language locale: '' @ to_String (lang f) @ js ''.\<newline>''
     @ js ''Style: '' @ ageStyle_v1 (age_band f) @ js ''.\<newline>''
     @ js ''Rules:\<newline>''
     @ js ''- Do NOT use emojis or emoticons.\<newline>''
     @ js ''- Do NOT quote or imitate the child's mispronounced words. Never repeat the transcript.\<newline>''
     @ js ''- Be warm, curious, and encouraging. No judgement.\<newline>''
     @ js ''- Ask at most ONE question.\<newline>''
     @ js ''- Focus on causal thinking: "change one thing, see what happens".\<newline>''
     @ js ''- Keep it under 60 words.\<newline>''\<close>

text \<open>
  \<open>last_events.slice(-10)\<close>: an array and a string have \<open>slice\<close>; on anything else
  the call throws a \<open>TypeError\<close>.
\<close>

definition recent_events_v1 :: "runtime \<Rightarrow> json \<Rightarrow> thrown + json" where
  "recent_events_v1 rt v =
     (case v of
        JArr xs \<Rightarrow> Inr (JArr (slice_last10 xs))
      | JStr s \<Rightarrow> Inr (JStr (slice_last10 s))
      | _ \<Rightarrow> Inl (type_error rt v))"

text \<open>
  \<open>textJson.output_text || (Array.isArray(textJson.output) ? JSON.stringify(textJson.output) : "")\<close>;
  reading \<open>output_text\<close> off \<open>null\<close> throws.
\<close>

definition rawText_v1 :: "runtime \<Rightarrow> json \<Rightarrow> thrown + json" where
  "rawText_v1 rt textJson =
     (if textJson = JNull then Inl (type_error rt JNull)
      else
        let fallback =
              (case get_prop textJson (js ''output'') of
                 Some (JArr xs) \<Rightarrow> JStr (JSON_stringify rt (JArr xs))
               | _ \<Rightarrow> JStr [])
        in case get_prop textJson (js ''output_text'') of
             None \<Rightarrow> Inr fallback
           | Some v \<Rightarrow> Inr (if truthy v then v else fallback))"

definition missing_key_v1 :: response where
  "missing_key_v1 = json_reply 500 [(js ''error'', JStr (js ''Missing OPENAI_API_KEY''))]"

definition gen_request_v1 :: "env \<Rightarrow> jsstring \<Rightarrow> fields \<Rightarrow> json \<Rightarrow> gen_call" where
  "gen_request_v1 e apiKey f recent =
     \<lparr> gen_authorization = bearer apiKey,
       gen_model = or_default (EMMA_TEXT_MODEL e) (js ''gpt-4o-mini''),
       gen_system = sys_v1 f,
       gen_user = user_payload f recent \<rparr>"

definition handler_v1 :: "runtime \<Rightarrow> env \<Rightarrow> upstream \<Rightarrow> request \<Rightarrow> response \<times> call list" where
  "handler_v1 rt e up req =
     (if req_method req \<noteq> js ''POST'' then (method_not_allowed, [])
      else
        let f = destructure (req_body req) in
        case OPENAI_API_KEY e of
          None \<Rightarrow> (missing_key_v1, [])
        | Some apiKey \<Rightarrow>
            if apiKey = [] then (missing_key_v1, [])
            else
              (case recent_events_v1 rt (last_events f) of
                 Inl x \<Rightarrow> (server_error x, [])
               | Inr recent \<Rightarrow>
                   let g = gen_request_v1 e apiKey f recent in
                   (case gen_service up g of
                      Rejects x \<Rightarrow> (server_error x, [GenCall g])
                    | Resolves r \<Rightarrow>
                        if \<not> reply_ok r then (generation_failed (reply_text r), [GenCall g])
                        else
                          (case reply_json r of
                             Inl x \<Rightarrow> (server_error x, [GenCall g])
                           | Inr textJson \<Rightarrow>
                               (case rawText_v1 rt textJson of
                                  Inl x \<Rightarrow> (server_error x, [GenCall g])
                                | Inr rawText \<Rightarrow>
                                    synthesize (\<lambda>errText. errText) e up apiKey [GenCall g]
                                      (sanitize_v1 (String_or_empty rawText)))))))"

subsection \<open>Second variant (lines 136-281), with the health probe\<close>

definition health :: "env \<Rightarrow> response" where
  "health e =
     json_reply 200
       [(js ''ok'', JBool True),
        (js ''route'', JStr (js ''/api/emma'')),
        (js ''methods'', JArr [JStr (js ''POST'')]),
        (js ''hasOpenAIKey'', JBool (env_truthy (OPENAI_API_KEY e))),
        (js ''textModel'', JStr (or_default (EMMA_TEXT_MODEL e) (js ''gpt-4o-mini''))),
        (js ''ttsModel'', JStr (or_default (EMMA_TTS_MODEL e) (js ''gpt-4o-mini-tts''))),
        (js ''voice'', JStr (or_default (EMMA_VOICE e) (js ''alloy'')))]"

text \<open>The \<open>fix\<close> text has the arrow U+2192 three times.\<close>

definition missing_key_v2 :: response where
  "missing_key_v2 =
     json_reply 500
       [(js ''error'', JStr (js ''Missing OPENAI_API_KEY'')),
        (js ''fix'',
           JStr (js ''Set OPENAI_API_KEY in Vercel '' @ [0x2192] @ js '' Project '' @ [0x2192]
                 @ js '' Settings '' @ [0x2192]
                 @ js '' Environment Variables (Production) and redeploy.''))]"

definition ageStyle_v2 :: "json \<Rightarrow> jsstring" where
  "ageStyle_v2 band =
     (if band = JStr (js ''3-5'') then js ''very short sentences, simple words, one step at a time''
      else if band = JStr (js ''6-8'') then js ''short sentences, simple causal questions''
      else js ''child-friendly language, encourage hypothesis gently'')"

definition sys_v2 :: "fields \<Rightarrow> jsstring" where
  \<open>sys_v2 f =
     trim
      (js ''\<newline>You are EMMA, a gentle cognitive companion for children.\<newline>''
       @ js ''Language locale: '' @ to_String (lang f) @ js ''.\<newline>''
       @ js ''Style: '' @ ageStyle_v2 (age_band f) @ js ''.\<newline>''
       @ js ''Rules:\<newline>''
       @ js ''- Do NOT use emojis or emoticons.\<newline>''
       @ js ''- Do NOT quote or imitate the child's mispronounced words. Never repeat the transcript.\<newline>''
       @ js ''- Be warm, curious, encouraging. No judgement.\<newline>''
       @ js ''- Ask at most ONE question.\<newline>''
       @ js ''- Focus on causal thinking: change one thing, see what happens.\<newline>''
       @ js ''- Keep it under 60 words.\<newline>'')\<close>

text \<open>\<open>Array.isArray(last_events) ? last_events.slice(-10) : []\<close>.\<close>

definition recent_events_v2 :: "json \<Rightarrow> json" where
  "recent_events_v2 v = (case v of JArr xs \<Rightarrow> JArr (slice_last10 xs) | _ \<Rightarrow> JArr [])"

text \<open>\<open>(textJson && textJson.output_text) ? textJson.output_text : ""\<close>.\<close>

definition rawText_v2 :: "json \<Rightarrow> json" where
  "rawText_v2 textJson =
     (if truthy textJson
      then (case get_prop textJson (js ''output_text'') of
              None \<Rightarrow> JStr []
            | Some v \<Rightarrow> if truthy v then v else JStr [])
      else JStr [])"

definition empty_output :: response where
  "empty_output = json_reply 500 [(js ''error'', JStr (js ''Empty AI text output''))]"

definition gen_request_v2 :: "env \<Rightarrow> jsstring \<Rightarrow> fields \<Rightarrow> gen_call" where
  "gen_request_v2 e apiKey f =
     \<lparr> gen_authorization = bearer apiKey,
       gen_model = or_default (EMMA_TEXT_MODEL e) (js ''gpt-4o-mini''),
       gen_system = sys_v2 f,
       gen_user = user_payload f (recent_events_v2 (last_events f)) \<rparr>"

definition handler_v2 :: "env \<Rightarrow> upstream \<Rightarrow> request \<Rightarrow> response \<times> call list" where
  "handler_v2 e up req =
     (if req_method req = js ''GET'' then (health e, [])
      else if req_method req \<noteq> js ''POST'' then (method_not_allowed, [])
      else
        case OPENAI_API_KEY e of
          None \<Rightarrow> (missing_key_v2, [])
        | Some apiKey \<Rightarrow>
            if apiKey = [] then (missing_key_v2, [])
            else
              let f = destructure (req_body req);
                  g = gen_request_v2 e apiKey f
              in
              (case gen_service up g of
                 Rejects x \<Rightarrow> (server_error x, [GenCall g])
               | Resolves r \<Rightarrow>
                   if \<not> reply_ok r
                   then (generation_failed (slice0 2000 (reply_text r)), [GenCall g])
                   else
                     (case reply_json r of
                        Inl x \<Rightarrow> (server_error x, [GenCall g])
                      | Inr textJson \<Rightarrow>
                          let cleanText = sanitize_v2 (String_or_empty (rawText_v2 textJson)) in
                          if cleanText = [] then (empty_output, [GenCall g])
                          else synthesize (slice0 2000) e up apiKey [GenCall g] cleanText)))"

subsection \<open>Reading a result\<close>

definition gen_calls :: "call list \<Rightarrow> gen_call list" where
  "gen_calls cs = concat (map (\<lambda>c. case c of GenCall g \<Rightarrow> [g] | TtsCall t \<Rightarrow> []) cs)"

definition tts_calls :: "call list \<Rightarrow> tts_call list" where
  "tts_calls cs = concat (map (\<lambda>c. case c of GenCall g \<Rightarrow> [] | TtsCall t \<Rightarrow> [t]) cs)"

text \<open>A field of the JSON body of a response.\<close>

definition body_field :: "response \<Rightarrow> string \<Rightarrow> json option" where
  "body_field r k = get_prop (payload r) (js k)"


text \<open>
  The \<open>cleanText\<close> of a run: the sanitization of the text extracted from the answer to
  its one generation call, if the run got that far.
\<close>

definition clean_text_v1 :: "runtime \<Rightarrow> upstream \<Rightarrow> call list \<Rightarrow> jsstring option" where
  "clean_text_v1 rt up cs =
     (case gen_calls cs of
        [g] \<Rightarrow>
          (case gen_service up g of
             Resolves r \<Rightarrow>
               (case reply_json r of
                  Inr textJson \<Rightarrow>
                    (case rawText_v1 rt textJson of
                       Inr rawText \<Rightarrow> Some (sanitize_v1 (String_or_empty rawText))
                     | Inl x \<Rightarrow> None)
                | Inl x \<Rightarrow> None)
           | Rejects x \<Rightarrow> None)
      | _ \<Rightarrow> None)"

definition clean_text_v2 :: "upstream \<Rightarrow> call list \<Rightarrow> jsstring option" where
  "clean_text_v2 up cs =
     (case gen_calls cs of
        [g] \<Rightarrow>
          (case gen_service up g of
             Resolves r \<Rightarrow>
               (case reply_json r of
                  Inr textJson \<Rightarrow> Some (sanitize_v2 (String_or_empty (rawText_v2 textJson)))
                | Inl x \<Rightarrow> None)
           | Rejects x \<Rightarrow> None)
      | _ \<Rightarrow> None)"


section \<open>Notions the properties are stated with\<close>

text \<open>No code point of U+2600..U+27BF and no U+FE0F.\<close>

definition symbol_free :: "jsstring \<Rightarrow> bool" where
  "symbol_free s =
     list_all (\<lambda>cp. \<not> misc_symbol cp \<and> \<not> variation_selector cp) (code_points s)"

text \<open>
  A generation call with \<open>child_spoken_signal\<close> taken out of its \<open>user\<close> object, and
  two requests that the handler reads alike but for \<open>transcript\<close>.
\<close>

definition drop_signal :: "json \<Rightarrow> json" where
  "drop_signal v =
     (case v of
        JObj kvs \<Rightarrow> JObj (filter (\<lambda>kv. fst kv \<noteq> js ''child_spoken_signal'') kvs)
      | _ \<Rightarrow> v)"

definition redact :: "gen_call \<Rightarrow> gen_call" where
  "redact g = g\<lparr> gen_user := drop_signal (gen_user g) \<rparr>"

definition agree_except_transcript :: "request \<Rightarrow> request \<Rightarrow> bool" where
  "agree_except_transcript r1 r2 \<longleftrightarrow>
     req_method r1 = req_method r2
     \<and> (destructure (req_body r1))\<lparr> transcript := JNull \<rparr>
       = (destructure (req_body r2))\<lparr> transcript := JNull \<rparr>"

section \<open>Scenarios\<close>

text \<open>
  The mocked services and the request of the end-to-end scenarios of the specification:
  a generator that answers with a given text, a synthesizer that answers with given
  bytes, either of them failing with a given body. A mocked answer sets the view of its
  body that the handler reads of it.
\<close>

definition example_runtime :: runtime where
  "example_runtime = \<lparr> JSON_stringify = (\<lambda>v. js ''[]''), type_error = (\<lambda>v. js ''TypeError'') \<rparr>"

definition example_env :: env where
  "example_env =
     \<lparr> OPENAI_API_KEY = Some (js ''sk-test''), EMMA_TEXT_MODEL = None, EMMA_TTS_MODEL = None,
       EMMA_VOICE = None \<rparr>"

definition no_key_env :: env where
  "no_key_env =
     \<lparr> OPENAI_API_KEY = None, EMMA_TEXT_MODEL = None, EMMA_TTS_MODEL = None, EMMA_VOICE = None \<rparr>"

definition mock :: "outcome \<Rightarrow> outcome \<Rightarrow> upstream" where
  "mock g t = \<lparr> gen_service = (\<lambda>c. g), tts_service = (\<lambda>c. t) \<rparr>"

definition replies_text :: "jsstring \<Rightarrow> outcome" where
  "replies_text s =
     Resolves \<lparr> reply_ok = True, reply_text = [],
                reply_json = Inr (JObj [(js ''output_text'', JStr s)]), reply_arrayBuffer = [] \<rparr>"

definition replies_bytes :: "8 word list \<Rightarrow> outcome" where
  "replies_bytes bs =
     Resolves \<lparr> reply_ok = True, reply_text = [], reply_json = Inl (js ''Unexpected token''),
                reply_arrayBuffer = bs \<rparr>"

definition replies_failure :: "jsstring \<Rightarrow> outcome" where
  "replies_failure s =
     Resolves \<lparr> reply_ok = False, reply_text = s, reply_json = Inl (js ''Unexpected token''),
                reply_arrayBuffer = [] \<rparr>"

definition post :: "(jsstring \<times> json) list \<Rightarrow> request" where
  "post kvs = \<lparr> req_method = js ''POST'', req_body = Some (JObj kvs) \<rparr>"

definition palla_rossa :: request where
  "palla_rossa =
     post [(js ''lang'', JStr (js ''it-IT'')), (js ''age_band'', JStr (js ''3-5'')),
           (js ''transcript'', JStr (js ''palla rossa'')),
           (js ''drawing_summary'', JObj [(js ''color'', JStr (js ''red''))]),
           (js ''last_events'', JArr [])]"

definition palla_blu :: request where
  "palla_blu =
     post [(js ''lang'', JStr (js ''it-IT'')), (js ''age_band'', JStr (js ''3-5'')),
           (js ''transcript'', JStr (js ''palla blu'')),
           (js ''drawing_summary'', JObj [(js ''color'', JStr (js ''red''))]),
           (js ''last_events'', JArr [])]"

text \<open>
  The generated text of the scenario, \<open>Che bella palla!\<close>, U+1F600, \<open>Di che colore\<close>,
  U+00E8, \<open>?\<close>, and its expected sanitized form.
\<close>

definition che_bella_palla :: jsstring where
  "che_bella_palla =
     js ''Che bella palla! '' @ [0xD83D, 0xDE00] @ js '' Di che colore '' @ [0xE8] @ js ''?''"

definition clean_palla :: jsstring where
  "clean_palla = js ''Che bella palla! Di che colore '' @ [0xE8] @ js ''?''"

definition palla_services :: upstream where
  "palla_services = mock (replies_text che_bella_palla) (replies_bytes [0x01, 0x02])"


section \<open>Notions used in the proofs\<close>

definition angle :: "nat \<Rightarrow> bool" where
  "angle cp \<longleftrightarrow> cp = 0x3C \<or> cp = 0x3E"

definition angle_free :: "jsstring \<Rightarrow> bool" where
  "angle_free s = list_all (\<lambda>cp. \<not> angle cp) (code_points s)"

text \<open>A class of code points outside the surrogates and the astral planes.\<close>

definition bmp_class :: "(nat \<Rightarrow> bool) \<Rightarrow> bool" where
  "bmp_class cls = (\<forall>cp. cls cp \<longrightarrow> cp < 0xD800 \<or> (0xDFFF < cp \<and> cp < 0x10000))"

definition unit_free :: "(nat \<Rightarrow> bool) \<Rightarrow> jsstring \<Rightarrow> bool" where
  "unit_free cls s = list_all (\<lambda>u. \<not> cls (unat u)) s"

text \<open>The normal form of whitespace that \<open>trim\<close> and \<open>collapse_ws\<close> leave.\<close>

definition trimmed :: "jsstring \<Rightarrow> bool" where
  "trimmed t \<longleftrightarrow> t = [] \<or> (\<not> is_ws (hd t) \<and> \<not> is_ws (last t))"

fun single_spaced :: "jsstring \<Rightarrow> bool" where
  "single_spaced [] = True"
| "single_spaced [u] = (is_ws u \<longrightarrow> u = 0x20)"
| "single_spaced (u # v # rest) =
     ((is_ws u \<longrightarrow> u = 0x20 \<and> \<not> is_ws v) \<and> single_spaced (v # rest))"

section \<open>Lemmas on strings\<close>

lemma of_char_less_256: "(of_char c :: nat) < 256"
proof -
  have "(of_char c :: nat) mod 256 < 256" by simp
  then show ?thesis by (simp only: of_char_mod_256)
qed

lemma unat_of_char: "unat (of_char c :: 16 word) = of_char c"
proof -
  have "(of_char c :: 16 word) = of_nat (of_char c)"
    by (simp add: of_nat_of_char)
  then have "unat (of_char c :: 16 word) = of_char c mod 2 ^ 16"
    by (simp add: unat_of_nat)
  then show ?thesis using of_char_less_256 [of c] by simp
qed

lemma of_char_word_eq_iff: "(of_char c :: 16 word) = of_char d \<longleftrightarrow> c = d"
proof
  assume "(of_char c :: 16 word) = of_char d"
  then have "unat (of_char c :: 16 word) = unat (of_char d :: 16 word)" by simp
  then show "c = d" by (simp add: unat_of_char)
qed simp

lemma js_eq_iff: "js a = js b \<longleftrightarrow> a = b"
  unfolding js_def
  by (rule inj_map_eq_map) (simp add: inj_on_def of_char_word_eq_iff)

lemma js_Nil_iff: "js s = [] \<longleftrightarrow> s = []"
  by (simp add: js_def)

lemma ws_not_surrogate: "is_ws u \<Longrightarrow> \<not> is_high u \<and> \<not> is_low u"
  by (auto simp: is_ws_def is_high_def is_low_def)

lemma pair_cp_ge: "is_high u \<Longrightarrow> 0x10000 \<le> pair_cp u v"
  by (simp add: pair_cp_def)

lemma code_points_Cons:
  "\<not> is_high u \<or> xs = [] \<or> \<not> is_low (hd xs) \<Longrightarrow> code_points (u # xs) = unat u # code_points xs"
  by (cases xs) auto

lemma code_points_append_right:
  "\<forall>x\<in>set w. \<not> is_low x \<Longrightarrow> code_points (t @ w) = code_points t @ code_points w"
proof (induction t rule: code_points.induct)
  case 1
  then show ?case by simp
next
  case (2 u)
  then show ?case by (cases w) auto
next
  case (3 u v rest)
  then show ?case by auto
qed

lemma code_points_append_left:
  "\<forall>x\<in>set p. \<not> is_high x \<Longrightarrow> code_points (p @ t) = code_points p @ code_points t"
  by (induction p) (auto simp: code_points_Cons)

lemma trim_decomp:
  "\<exists>p w. s = p @ trim s @ w \<and> (\<forall>x\<in>set p. is_ws x) \<and> (\<forall>x\<in>set w. is_ws x)"
proof -
  let ?y = "dropWhile is_ws s"
  have y: "?y = trim s @ rev (takeWhile is_ws (rev ?y))"
    unfolding trim_def by (metis rev_append rev_rev_ident takeWhile_dropWhile_id)
  have "s = takeWhile is_ws s @ ?y" by simp
  with y have "s = takeWhile is_ws s @ trim s @ rev (takeWhile is_ws (rev ?y))" by simp
  moreover have "\<forall>x\<in>set (takeWhile is_ws s). is_ws x" by (auto dest: set_takeWhileD)
  moreover have "\<forall>x\<in>set (rev (takeWhile is_ws (rev ?y))). is_ws x" by (auto dest: set_takeWhileD)
  ultimately show ?thesis by blast
qed

lemma code_points_trim:
  "\<exists>a b. code_points s = a @ code_points (trim s) @ b"
proof -
  obtain p w where s: "s = p @ trim s @ w" and p: "\<forall>x\<in>set p. is_ws x" and w: "\<forall>x\<in>set w. is_ws x"
    using trim_decomp by blast
  have "code_points (p @ trim s @ w) = code_points p @ code_points (trim s) @ code_points w"
    using p w by (simp add: code_points_append_left code_points_append_right ws_not_surrogate)
  with s show ?thesis by metis
qed

lemma list_all_code_points_trim:
  "list_all Q (code_points s) \<Longrightarrow> list_all Q (code_points (trim s))"
  using code_points_trim [of s] by (auto simp: list_all_iff)

lemma set_trim: "set (trim s) \<subseteq> set s"
proof -
  obtain p w where "s = p @ trim s @ w" using trim_decomp by blast
  then have "set s = set p \<union> set (trim s) \<union> set w" by (metis set_append sup_assoc)
  then show ?thesis by blast
qed

lemma collapse_ws_Nil_iff: "collapse_ws s = [] \<longleftrightarrow> s = []"
  by (cases s) auto

lemma hd_collapse_ws: "s \<noteq> [] \<Longrightarrow> hd (collapse_ws s) = (if is_ws (hd s) then 0x20 else hd s)"
  by (cases s) auto

lemma hd_collapse_ws_not_ws:
  "d = [] \<or> \<not> is_ws (hd d) \<Longrightarrow> collapse_ws d = [] \<or> \<not> is_ws (hd (collapse_ws d))"
  by (cases d) auto

lemma space_props: "is_ws 0x20" "\<not> is_high 0x20" "\<not> is_low 0x20"
  by (simp_all add: is_ws_def is_high_def is_low_def)

lemma list_all_code_points_dropWhile:
  "list_all Q (code_points s) \<Longrightarrow> list_all Q (code_points (dropWhile is_ws s))"
  by (induction s) (auto simp: code_points_Cons ws_not_surrogate)

lemma list_all_code_points_collapse_ws:
  "list_all Q (code_points s) \<Longrightarrow> Q 0x20 \<Longrightarrow> list_all Q (code_points (collapse_ws s))"
proof (induction s rule: length_induct)
  case (1 s)
  show ?case
  proof (cases s)
    case Nil
    then show ?thesis by simp
  next
    case (Cons u us)
    show ?thesis
    proof (cases "is_ws u")
      case True
      then have cp: "code_points (u # us) = unat u # code_points us"
        by (simp add: code_points_Cons ws_not_surrogate)
      with "1.prems" Cons have "list_all Q (code_points (dropWhile is_ws us))"
        by (simp add: list_all_code_points_dropWhile)
      moreover have "length (dropWhile is_ws us) < length s"
        using Cons by (simp add: le_imp_less_Suc length_dropWhile_le)
      ultimately have "list_all Q (code_points (collapse_ws (dropWhile is_ws us)))"
        using 1 by blast
      with True Cons "1.prems" show ?thesis
        by (simp add: code_points_Cons space_props)
    next
      case False
      note nws = this
      show ?thesis
      proof (cases "is_high u \<and> us \<noteq> [] \<and> is_low (hd us)")
        case True
        then obtain v rest where us: "us = v # rest" and v: "is_low v" and u: "is_high u"
          by (cases us) auto
        from v have "\<not> is_ws v" using ws_not_surrogate by blast
        with nws us Cons have c: "collapse_ws s = u # v # collapse_ws rest" by simp
        have "list_all Q (code_points rest)" using "1.prems" Cons us u v by simp
        moreover have "length rest < length s" using Cons us by simp
        ultimately have "list_all Q (code_points (collapse_ws rest))" using 1 by blast
        with c u v "1.prems" Cons us show ?thesis by simp
      next
        case False
        then have a: "\<not> is_high u \<or> us = [] \<or> \<not> is_low (hd us)" by blast
        then have cp: "code_points (u # us) = unat u # code_points us"
          by (rule code_points_Cons)
        have b: "\<not> is_high u \<or> collapse_ws us = [] \<or> \<not> is_low (hd (collapse_ws us))"
          using a by (auto simp: collapse_ws_Nil_iff hd_collapse_ws space_props split: if_splits)
        have "list_all Q (code_points (collapse_ws us))"
          using 1 Cons cp by simp
        with nws Cons cp "1.prems" code_points_Cons [OF b] show ?thesis by simp
      qed
    qed
  qed
qed

lemma set_collapse_ws: "set (collapse_ws s) \<subseteq> insert 0x20 (set s)"
proof (induction s rule: collapse_ws.induct)
  case 1
  then show ?case by simp
next
  case (2 u us)
  have "set (dropWhile is_ws us) \<subseteq> set us" by (rule set_dropWhileD [THEN subsetI])
  with 2 show ?case by auto
qed

lemma replace_u_id:
  "list_all (\<lambda>cp. \<not> cls cp) (code_points s) \<Longrightarrow> replace_u cls s = s"
  by (induction cls s rule: replace_u.induct) auto

lemma well_formed_Cons_pair:
  "is_high u \<Longrightarrow> is_low v \<Longrightarrow> well_formed (u # v # rest) \<Longrightarrow> well_formed rest"
  by (simp add: well_formed_def)

lemma well_formed_Cons_single:
  "\<not> (is_high u \<and> is_low v) \<Longrightarrow> well_formed (u # v # rest) \<Longrightarrow>
     \<not> is_high u \<and> well_formed (v # rest)"
  by (auto simp: well_formed_def is_high_def)

lemma code_points_replace_u:
  "well_formed s \<Longrightarrow> code_points (replace_u cls s) = filter (\<lambda>cp. \<not> cls cp) (code_points s)"
proof (induction cls s rule: replace_u.induct)
  case (1 cls)
  then show ?case by simp
next
  case (2 cls u)
  then show ?case by simp
next
  case (3 cls u v rest)
  show ?case
  proof (cases "is_high u \<and> is_low v")
    case True
    with 3 show ?thesis by (auto dest: well_formed_Cons_pair)
  next
    case False
    from well_formed_Cons_single [OF False "3.prems"]
    have u: "\<not> is_high u" and wf: "well_formed (v # rest)" by simp_all
    from False wf 3 u show ?thesis
      by (auto simp: code_points_Cons)
  qed
qed

lemma well_formed_replace_u: "well_formed s \<Longrightarrow> well_formed (replace_u cls s)"
  by (simp add: well_formed_def code_points_replace_u [unfolded well_formed_def] list_all_iff)

lemma bmp_class_examples:
  "bmp_class misc_symbol" "bmp_class variation_selector" "bmp_class angle"
  by (auto simp: bmp_class_def misc_symbol_def variation_selector_def angle_def)

lemma bmp_class_surrogate:
  assumes "bmp_class cls"
  shows "is_high u \<Longrightarrow> \<not> cls (unat u)" and "is_low u \<Longrightarrow> \<not> cls (unat u)"
    and "is_high u \<Longrightarrow> \<not> cls (pair_cp u v)"
  using assms pair_cp_ge [of u v]
  by (fastforce simp: bmp_class_def is_high_def is_low_def)+

lemma replace_u_bmp:
  "bmp_class cls \<Longrightarrow> replace_u cls s = filter (\<lambda>u. \<not> cls (unat u)) s"
proof (induction cls s rule: replace_u.induct)
  case (1 cls)
  then show ?case by simp
next
  case (2 cls u)
  then show ?case by simp
next
  case (3 cls u v rest)
  note b = bmp_class_surrogate [OF "3.prems"]
  have "is_high u \<Longrightarrow> \<not> cls (unat u)" "is_low v \<Longrightarrow> \<not> cls (unat v)"
    "is_high u \<Longrightarrow> \<not> cls (pair_cp u v)"
    by (simp_all add: b)
  with 3 show ?case by auto
qed

lemma unit_free_code_points:
  assumes "bmp_class cls" and "unit_free cls s"
  shows "list_all (\<lambda>cp. \<not> cls cp) (code_points s)"
  using assms(2)
proof (induction s rule: code_points.induct)
  case 1
  then show ?case by simp
next
  case (2 u)
  then show ?case by (simp add: unit_free_def)
next
  case (3 u v rest)
  then show ?case
    using bmp_class_surrogate(3) [OF assms(1)] by (auto simp: unit_free_def)
qed

lemma unit_free_trim: "unit_free cls s \<Longrightarrow> unit_free cls (trim s)"
  using set_trim [of s] by (auto simp: unit_free_def list_all_iff)

lemma unit_free_collapse_ws:
  "\<not> cls 0x20 \<Longrightarrow> unit_free cls s \<Longrightarrow> unit_free cls (collapse_ws s)"
  using set_collapse_ws [of s] by (auto simp: unit_free_def list_all_iff)

lemma unit_free_filter: "unit_free cls s \<Longrightarrow> unit_free cls (filter P s)"
  by (simp add: unit_free_def list_all_iff)

lemma unit_free_filter_self: "unit_free cls (filter (\<lambda>u. \<not> cls (unat u)) s)"
  by (simp add: unit_free_def list_all_iff)

lemma not_angle_unat: "not_angle u \<longleftrightarrow> \<not> angle (unat u)"
  by (auto simp: not_angle_def angle_def word_unat_eq_iff)

lemma filter_not_angle: "filter not_angle s = replace_u angle s"
proof (induction angle s rule: replace_u.induct)
  case 1
  then show ?case by simp
next
  case (2 u)
  then show ?case by (simp add: not_angle_unat)
next
  case (3 u v rest)
  have "is_high u \<Longrightarrow> not_angle u" "is_low v \<Longrightarrow> not_angle v"
    by (auto simp: not_angle_unat angle_def is_high_def is_low_def)
  moreover have "is_high u \<Longrightarrow> \<not> angle (pair_cp u v)"
    using pair_cp_ge [of u v] by (auto simp: angle_def)
  ultimately show ?case using 3 by (auto simp: not_angle_unat)
qed

lemma trimmed_trim: "trimmed (trim s)"
proof (cases "trim s = []")
  case True
  then show ?thesis by (simp add: trimmed_def)
next
  case False
  let ?y = "dropWhile is_ws s"
  let ?z = "dropWhile is_ws (rev ?y)"
  from False have z: "?z \<noteq> []" by (simp add: trim_def)
  have y: "?y \<noteq> []"
  proof
    assume a: "?y = []"
    have "?z = []" unfolding a by simp
    with z show False by contradiction
  qed
  have "last (trim s) = hd ?z" by (simp add: trim_def last_rev)
  moreover have "\<not> is_ws (hd ?z)" using z by (rule hd_dropWhile)
  moreover have "rev ?y = takeWhile is_ws (rev ?y) @ ?z" by simp
  then have "last (rev ?y) = last ?z" using z by (metis last_appendR)
  then have "hd (trim s) = hd ?y" by (simp add: trim_def hd_rev last_rev y)
  moreover have "\<not> is_ws (hd ?y)" using y by (rule hd_dropWhile)
  ultimately show ?thesis by (simp add: trimmed_def)
qed

lemma dropWhile_id: "t = [] \<or> \<not> P (hd t) \<Longrightarrow> dropWhile P t = t"
  by (cases t) auto

lemma trim_id: "trimmed t \<Longrightarrow> trim t = t"
proof -
  assume t: "trimmed t"
  then have "dropWhile is_ws t = t" by (auto simp: trimmed_def intro: dropWhile_id)
  moreover have "dropWhile is_ws (rev t) = rev t"
    using t by (auto simp: trimmed_def hd_rev intro: dropWhile_id)
  ultimately show ?thesis by (simp add: trim_def)
qed

lemma single_spaced_Cons: "single_spaced (u # us) \<Longrightarrow> single_spaced us"
  by (cases us) auto

lemma single_spaced_append_right: "single_spaced (a @ b) \<Longrightarrow> single_spaced b"
  by (induction a) (auto dest: single_spaced_Cons)

lemma single_spaced_append_left: "single_spaced (a @ b) \<Longrightarrow> single_spaced a"
proof (induction a rule: single_spaced.induct)
  case 1
  then show ?case by simp
next
  case (2 u)
  then show ?case by (cases b) auto
next
  case (3 u v rest)
  then show ?case by auto
qed

lemma single_spaced_trim: "single_spaced s \<Longrightarrow> single_spaced (trim s)"
proof -
  assume s: "single_spaced s"
  obtain p w where "s = p @ trim s @ w" using trim_decomp by blast
  with s have "single_spaced (p @ trim s @ w)" by simp
  then show ?thesis
    by (blast dest: single_spaced_append_right single_spaced_append_left)
qed

lemma single_spaced_collapse_ws: "single_spaced (collapse_ws s)"
proof (induction s rule: collapse_ws.induct)
  case 1
  then show ?case by simp
next
  case (2 u us)
  show ?case
  proof (cases "is_ws u")
    case True
    let ?d = "dropWhile is_ws us"
    have "?d = [] \<or> \<not> is_ws (hd ?d)" using hd_dropWhile [of is_ws us] by blast
    then have "collapse_ws ?d = [] \<or> \<not> is_ws (hd (collapse_ws ?d))"
      by (rule hd_collapse_ws_not_ws)
    with True 2 show ?thesis
      by (cases "collapse_ws ?d") (auto simp: space_props)
  next
    case False
    with 2 show ?thesis by (cases "collapse_ws us") auto
  qed
qed

lemma collapse_ws_id: "single_spaced t \<Longrightarrow> collapse_ws t = t"
proof (induction t rule: single_spaced.induct)
  case 1
  then show ?case by simp
next
  case (2 u)
  then show ?case by auto
next
  case (3 u v rest)
  then show ?case by auto
qed

section \<open>Lemmas on the sanitization\<close>

lemma well_formed_trim: "well_formed s \<Longrightarrow> well_formed (trim s)"
  unfolding well_formed_def by (rule list_all_code_points_trim)

lemma emoji_free_trim: "emoji_free s \<Longrightarrow> emoji_free (trim s)"
  unfolding emoji_free_def by (rule list_all_code_points_trim)

lemma emoji_free_collapse_ws: "emoji_free s \<Longrightarrow> emoji_free (collapse_ws s)"
  unfolding emoji_free_def
  by (rule list_all_code_points_collapse_ws)
    (simp_all add: pictograph_def misc_symbol_def variation_selector_def)

lemma strip_ranges_well_formed: "well_formed s \<Longrightarrow> well_formed (strip_ranges s)"
  by (simp add: strip_ranges_def well_formed_replace_u)

lemma strip_ranges_emoji_free: "well_formed s \<Longrightarrow> emoji_free (strip_ranges s)"
  by (simp add: strip_ranges_def emoji_free_def code_points_replace_u well_formed_replace_u
      list_all_iff)

lemma strip_ranges_id: "emoji_free t \<Longrightarrow> strip_ranges t = t"
  by (simp add: strip_ranges_def emoji_free_def replace_u_id list_all_iff)

lemma angle_free_trim: "angle_free s \<Longrightarrow> angle_free (trim s)"
  unfolding angle_free_def by (rule list_all_code_points_trim)

lemma angle_free_collapse_ws: "angle_free s \<Longrightarrow> angle_free (collapse_ws s)"
  unfolding angle_free_def
  by (rule list_all_code_points_collapse_ws) (simp_all add: angle_def)

lemma filter_not_angle_id: "angle_free t \<Longrightarrow> filter not_angle t = t"
  by (simp add: filter_not_angle angle_free_def replace_u_id)

lemma filter_not_angle_props:
  assumes "well_formed s" and "emoji_free s"
  shows "emoji_free (filter not_angle s)" and "angle_free (filter not_angle s)"
  using assms
  by (simp_all add: filter_not_angle emoji_free_def angle_free_def code_points_replace_u
      list_all_iff)

lemma stripEmojis_v1_props:
  assumes "well_formed s"
  shows "emoji_free (stripEmojis_v1 s)" and "angle_free (stripEmojis_v1 s)"
  using assms
  by (simp_all add: stripEmojis_v1_def emoji_free_trim angle_free_trim filter_not_angle_props
      strip_ranges_well_formed strip_ranges_emoji_free)

lemma stripEmojis_v2_props:
  assumes "well_formed s"
  shows "emoji_free (stripEmojis_v2 s)"
  using assms by (simp add: stripEmojis_v2_def emoji_free_trim strip_ranges_emoji_free)

lemma sanitize_v1_props:
  assumes "well_formed s"
  shows "emoji_free (sanitize_v1 s)" and "angle_free (sanitize_v1 s)"
    and "trimmed (sanitize_v1 s)" and "single_spaced (sanitize_v1 s)"
  using assms
  by (simp_all add: sanitize_v1_def emoji_free_trim emoji_free_collapse_ws angle_free_trim
      angle_free_collapse_ws stripEmojis_v1_props well_formed_trim trimmed_trim
      single_spaced_trim single_spaced_collapse_ws)

lemma sanitize_v2_props:
  assumes "well_formed s"
  shows "emoji_free (sanitize_v2 s)"
    and "trimmed (sanitize_v2 s)" and "single_spaced (sanitize_v2 s)"
  using assms
  by (simp_all add: sanitize_v2_def emoji_free_trim emoji_free_collapse_ws
      stripEmojis_v2_props well_formed_trim trimmed_trim
      single_spaced_trim single_spaced_collapse_ws)

lemma sanitize_v1_fixed:
  "emoji_free t \<Longrightarrow> angle_free t \<Longrightarrow> trimmed t \<Longrightarrow> single_spaced t \<Longrightarrow> sanitize_v1 t = t"
  by (simp add: sanitize_v1_def stripEmojis_v1_def trim_id strip_ranges_id filter_not_angle_id
      collapse_ws_id)

lemma sanitize_v2_fixed:
  "emoji_free t \<Longrightarrow> trimmed t \<Longrightarrow> single_spaced t \<Longrightarrow> sanitize_v2 t = t"
  by (simp add: sanitize_v2_def stripEmojis_v2_def trim_id strip_ranges_id collapse_ws_id)

lemma strip_ranges_unit_free:
  "unit_free misc_symbol (strip_ranges s) \<and> unit_free variation_selector (strip_ranges s)"
proof -
  let ?a = "replace_u misc_symbol (replace_u pictograph s)"
  have "unit_free misc_symbol ?a"
    by (simp only: replace_u_bmp [OF bmp_class_examples(1)] unit_free_filter_self)
  then have "unit_free misc_symbol (filter (\<lambda>u. \<not> variation_selector (unat u)) ?a)"
    by (rule unit_free_filter)
  moreover have "unit_free variation_selector (filter (\<lambda>u. \<not> variation_selector (unat u)) ?a)"
    by (rule unit_free_filter_self)
  moreover have "strip_ranges s = filter (\<lambda>u. \<not> variation_selector (unat u)) ?a"
    by (simp only: strip_ranges_def replace_u_bmp [OF bmp_class_examples(2)])
  ultimately show ?thesis by simp
qed

lemma not_class_space: "\<not> misc_symbol 0x20" "\<not> variation_selector 0x20"
  by (simp_all add: misc_symbol_def variation_selector_def)

lemma stripEmojis_unit_free:
  "unit_free misc_symbol (stripEmojis_v1 s)" "unit_free variation_selector (stripEmojis_v1 s)"
  "unit_free misc_symbol (stripEmojis_v2 s)" "unit_free variation_selector (stripEmojis_v2 s)"
  by (simp_all add: stripEmojis_v1_def stripEmojis_v2_def unit_free_trim unit_free_filter
      strip_ranges_unit_free)

lemma sanitize_unit_free:
  "unit_free misc_symbol (sanitize_v1 s)" "unit_free variation_selector (sanitize_v1 s)"
  "unit_free misc_symbol (sanitize_v2 s)" "unit_free variation_selector (sanitize_v2 s)"
  by (simp_all add: sanitize_v1_def sanitize_v2_def unit_free_trim unit_free_collapse_ws
      stripEmojis_unit_free not_class_space)

lemma symbol_freeI:
  "unit_free misc_symbol s \<Longrightarrow> unit_free variation_selector s \<Longrightarrow> symbol_free s"
  using unit_free_code_points [OF bmp_class_examples(1), of s]
    unit_free_code_points [OF bmp_class_examples(2), of s]
  by (simp add: symbol_free_def list_all_iff)

lemmas sanitize_eval = sanitize_v1_def sanitize_v2_def stripEmojis_v1_def stripEmojis_v2_def
  strip_ranges_def trim_def is_ws_def is_high_def is_low_def pair_cp_def pictograph_def
  misc_symbol_def variation_selector_def not_angle_def

lemma che_bella_palla_sanitized:
  "sanitize_v2 che_bella_palla = js ''Che bella palla! Di che colore '' @ [0xE8] @ js ''?''"
  by (simp add: che_bella_palla_def js_def sanitize_eval)

lemma clean_palla_v2: "sanitize_v2 che_bella_palla = clean_palla"
  by (simp add: clean_palla_def che_bella_palla_sanitized)

lemma clean_palla_v1: "sanitize_v1 che_bella_palla = clean_palla"
  by (simp add: clean_palla_def che_bella_palla_def js_def sanitize_eval)

lemma well_formed_che_bella_palla: "well_formed che_bella_palla"
  by (simp add: che_bella_palla_def js_def well_formed_def is_high_def is_low_def pair_cp_def)

lemma nonempty_examples: "clean_palla \<noteq> []" "che_bella_palla \<noteq> []"
  by (simp_all add: clean_palla_def che_bella_palla_def js_def)

lemma blank_sanitized: "sanitize_v1 (js ''   '') = []" "sanitize_v2 (js ''   '') = []"
  by (simp_all add: js_def sanitize_eval)

section \<open>Lemmas on the handler\<close>

lemmas reply_defs = json_reply_def method_not_allowed_def server_error_def success_def
  generation_failed_def tts_failed_def missing_key_v1_def missing_key_v2_def empty_output_def
  health_def

lemma body_field_json_reply: "body_field (json_reply code kvs) k = map_of kvs (js k)"
  by (simp add: body_field_def json_reply_def)

lemma status_json_reply: "status (json_reply code kvs) = code"
  by (simp add: json_reply_def)

lemma status_values:
  "status method_not_allowed = 405" "status (server_error x) = 500"
  "status (generation_failed d) = 500" "status (tts_failed d c) = 500"
  "status missing_key_v1 = 500" "status missing_key_v2 = 500" "status empty_output = 500"
  "status (success c a) = 200" "status (health e) = 200"
  by (simp_all add: reply_defs)


lemma base64_example: "base64 [0x01, 0x02] = js ''AQI=''"
  by (simp add: js_def b64_char_def b64_alphabet_def)

lemma synthesize_result:
  "synthesize d e up k made c =
     (case tts_service up (tts_request e k c) of
        Rejects x \<Rightarrow> server_error x
      | Resolves r \<Rightarrow>
          if reply_ok r then success c (reply_arrayBuffer r)
          else tts_failed (d (reply_text r)) c,
      made @ [TtsCall (tts_request e k c)])"
  by (simp add: synthesize_def Let_def split: outcome.splits)

lemma gen_calls_simps:
  "gen_calls [] = []"
  "gen_calls (GenCall g # cs) = g # gen_calls cs"
  "gen_calls (TtsCall t # cs) = gen_calls cs"
  "gen_calls (xs @ ys) = gen_calls xs @ gen_calls ys"
  by (simp_all add: gen_calls_def)

lemma tts_calls_simps:
  "tts_calls [] = []"
  "tts_calls (GenCall g # cs) = tts_calls cs"
  "tts_calls (TtsCall t # cs) = t # tts_calls cs"
  "tts_calls (xs @ ys) = tts_calls xs @ tts_calls ys"
  by (simp_all add: tts_calls_def)

lemma gen_calls_handler_v1:
  "gen_calls (snd (handler_v1 rt e up req)) =
     (if req_method req = js ''POST'' \<and> env_truthy (OPENAI_API_KEY e)
      then (case recent_events_v1 rt (last_events (destructure (req_body req))) of
              Inl x \<Rightarrow> []
            | Inr recent \<Rightarrow>
                [gen_request_v1 e (the (OPENAI_API_KEY e)) (destructure (req_body req)) recent])
      else [])"
  by (simp add: handler_v1_def env_truthy_def synthesize_result gen_calls_simps Let_def
      split: option.splits sum.splits outcome.splits)

lemma gen_calls_handler_v2:
  "gen_calls (snd (handler_v2 e up req)) =
     (if req_method req = js ''POST'' \<and> env_truthy (OPENAI_API_KEY e)
      then [gen_request_v2 e (the (OPENAI_API_KEY e)) (destructure (req_body req))]
      else [])"
  by (simp add: handler_v2_def env_truthy_def synthesize_result gen_calls_simps Let_def
      js_eq_iff split: option.splits sum.splits outcome.splits)

lemma handler_v1_after_tts:
  assumes "TtsCall t \<in> set (snd (handler_v1 rt e up req))"
  shows "clean_text_v1 rt up (snd (handler_v1 rt e up req)) = Some (tts_input t)
           \<and> tts_calls (snd (handler_v1 rt e up req)) = [t]
           \<and> fst (handler_v1 rt e up req) =
               (case tts_service up t of
                  Rejects x \<Rightarrow> server_error x
                | Resolves r \<Rightarrow>
                    if reply_ok r then success (tts_input t) (reply_arrayBuffer r)
                    else tts_failed (reply_text r) (tts_input t))"
  using assms
  by (auto simp: handler_v1_def synthesize_result tts_calls_simps gen_calls_simps
      tts_request_def clean_text_v1_def Let_def
      split: if_splits option.splits sum.splits outcome.splits)

lemma handler_v2_after_tts:
  assumes "TtsCall t \<in> set (snd (handler_v2 e up req))"
  shows "clean_text_v2 up (snd (handler_v2 e up req)) = Some (tts_input t)
           \<and> tts_input t \<noteq> []
           \<and> tts_calls (snd (handler_v2 e up req)) = [t]
           \<and> fst (handler_v2 e up req) =
               (case tts_service up t of
                  Rejects x \<Rightarrow> server_error x
                | Resolves r \<Rightarrow>
                    if reply_ok r then success (tts_input t) (reply_arrayBuffer r)
                    else tts_failed (slice0 2000 (reply_text r)) (tts_input t))"
  using assms
  by (auto simp: handler_v2_def synthesize_result tts_calls_simps gen_calls_simps
      tts_request_def clean_text_v2_def Let_def
      split: if_splits option.splits sum.splits outcome.splits)




lemma get_prop_user_payload:
  "get_prop (user_payload f recent) (js ''recent_events'') = Some recent"
  "get_prop (user_payload f recent) (js ''child_spoken_signal'') = Some (transcript f)"
  by (simp_all add: user_payload_def js_eq_iff)

lemma drop_signal_user_payload:
  "drop_signal (user_payload f recent) =
     JObj [(js ''child_profile'',
              JObj [(js ''child_id'', child_id f), (js ''age_band'', age_band f),
                    (js ''lang'', lang f)]),
           (js ''drawing_summary'', drawing_summary f),
           (js ''recent_events'', recent)]"
  by (simp add: drop_signal_def user_payload_def js_eq_iff)

lemma agree_except_transcriptD:
  assumes "agree_except_transcript r1 r2"
  shows "req_method r1 = req_method r2"
    and "lang (destructure (req_body r1)) = lang (destructure (req_body r2))"
    and "age_band (destructure (req_body r1)) = age_band (destructure (req_body r2))"
    and "child_id (destructure (req_body r1)) = child_id (destructure (req_body r2))"
    and "drawing_summary (destructure (req_body r1)) = drawing_summary (destructure (req_body r2))"
    and "last_events (destructure (req_body r1)) = last_events (destructure (req_body r2))"
proof -
  let ?f1 = "destructure (req_body r1)" and ?f2 = "destructure (req_body r2)"
  from assms have m: "req_method r1 = req_method r2"
    and eq: "?f1\<lparr>transcript := JNull\<rparr> = ?f2\<lparr>transcript := JNull\<rparr>"
    by (simp_all add: agree_except_transcript_def)
  show "req_method r1 = req_method r2" by (rule m)
  from eq have "lang (?f1\<lparr>transcript := JNull\<rparr>) = lang (?f2\<lparr>transcript := JNull\<rparr>)"
    by (rule arg_cong)
  then show "lang ?f1 = lang ?f2" by simp
  from eq have "age_band (?f1\<lparr>transcript := JNull\<rparr>) = age_band (?f2\<lparr>transcript := JNull\<rparr>)"
    by (rule arg_cong)
  then show "age_band ?f1 = age_band ?f2" by simp
  from eq have "child_id (?f1\<lparr>transcript := JNull\<rparr>) = child_id (?f2\<lparr>transcript := JNull\<rparr>)"
    by (rule arg_cong)
  then show "child_id ?f1 = child_id ?f2" by simp
  from eq have "drawing_summary (?f1\<lparr>transcript := JNull\<rparr>)
                = drawing_summary (?f2\<lparr>transcript := JNull\<rparr>)"
    by (rule arg_cong)
  then show "drawing_summary ?f1 = drawing_summary ?f2" by simp
  from eq have "last_events (?f1\<lparr>transcript := JNull\<rparr>) = last_events (?f2\<lparr>transcript := JNull\<rparr>)"
    by (rule arg_cong)
  then show "last_events ?f1 = last_events ?f2" by simp
qed

text \<open>Two requests of one method whose bodies differ in \<open>transcript\<close> at most agree so.\<close>

lemma agree_except_transcriptI:
  assumes "req_method r1 = req_method r2"
    and "\<And>k. k \<noteq> js ''transcript'' \<Longrightarrow>
           get_prop (body_or_empty (req_body r1)) k = get_prop (body_or_empty (req_body r2)) k"
  shows "agree_except_transcript r1 r2"
proof -
  have "field_or (body_or_empty (req_body r1)) (js k) d
        = field_or (body_or_empty (req_body r2)) (js k) d" if "k \<noteq> ''transcript''" for k d
    using assms(2) [of "js k"] that by (simp add: field_or_def js_eq_iff)
  then show ?thesis
    using assms(1) by (simp add: agree_except_transcript_def destructure_def Let_def)
qed

lemma sys_v1_cong:
  "lang f1 = lang f2 \<Longrightarrow> age_band f1 = age_band f2 \<Longrightarrow> sys_v1 f1 = sys_v1 f2"
  by (simp add: sys_v1_def)

lemma sys_v2_cong:
  "lang f1 = lang f2 \<Longrightarrow> age_band f1 = age_band f2 \<Longrightarrow> sys_v2 f1 = sys_v2 f2"
  by (simp add: sys_v2_def)

lemma redact_gen_request_v1:
  "redact (gen_request_v1 e k f recent) =
     \<lparr> gen_authorization = bearer k,
       gen_model = or_default (EMMA_TEXT_MODEL e) (js ''gpt-4o-mini''),
       gen_system = sys_v1 f,
       gen_user = drop_signal (user_payload f recent) \<rparr>"
  by (simp add: redact_def gen_request_v1_def)

lemma redact_gen_request_v2:
  "redact (gen_request_v2 e k f) =
     \<lparr> gen_authorization = bearer k,
       gen_model = or_default (EMMA_TEXT_MODEL e) (js ''gpt-4o-mini''),
       gen_system = sys_v2 f,
       gen_user = drop_signal (user_payload f (recent_events_v2 (last_events f))) \<rparr>"
  by (simp add: redact_def gen_request_v2_def)


lemmas example_defs = example_runtime_def example_env_def no_key_env_def mock_def
  replies_text_def replies_bytes_def replies_failure_def post_def palla_rossa_def

lemmas request_eval = destructure_def body_or_empty_def field_or_def post_def js_eq_iff

lemma destructure_palla_rossa:
  "destructure (req_body palla_rossa) =
     \<lparr> lang = JStr (js ''it-IT''), age_band = JStr (js ''3-5''), child_id = JStr (js ''bimbo''),
       transcript = JStr (js ''palla rossa''),
       drawing_summary = JObj [(js ''color'', JStr (js ''red''))], last_events = JArr [] \<rparr>"
  by (simp add: palla_rossa_def request_eval)

lemma destructure_palla_blu:
  "destructure (req_body palla_blu) =
     \<lparr> lang = JStr (js ''it-IT''), age_band = JStr (js ''3-5''), child_id = JStr (js ''bimbo''),
       transcript = JStr (js ''palla blu''),
       drawing_summary = JObj [(js ''color'', JStr (js ''red''))], last_events = JArr [] \<rparr>"
  by (simp add: palla_blu_def request_eval)

lemma method_examples:
  "req_method palla_rossa = js ''POST''" "req_method palla_blu = js ''POST''"
  "req_method (post kvs) = js ''POST''"
  by (simp_all add: palla_rossa_def palla_blu_def post_def)

lemma key_examples:
  "env_truthy (OPENAI_API_KEY example_env)" "\<not> env_truthy (OPENAI_API_KEY no_key_env)"
  "OPENAI_API_KEY example_env = Some (js ''sk-test'')"
  by (simp_all add: example_env_def no_key_env_def env_truthy_def js_Nil_iff)

lemma agree_palla: "agree_except_transcript palla_rossa palla_blu"
  by (simp add: agree_except_transcript_def method_examples destructure_palla_rossa
      destructure_palla_blu)


lemma raw_examples:
  "String_or_empty (rawText_v2 (JObj [(js ''output_text'', JStr s)])) = s"
  "rawText_v1 rt (JObj [(js ''output_text'', JStr s)]) = Inr (JStr s)"
  "String_or_empty (JStr s) = s"
  by (auto simp: String_or_empty_def rawText_v2_def rawText_v1_def js_eq_iff)

lemma run_v2:
  "sanitize_v2 s \<noteq> [] \<Longrightarrow>
   handler_v2 example_env (mock (replies_text s) tts) palla_rossa =
     synthesize (slice0 2000) example_env (mock (replies_text s) tts) (js ''sk-test'')
       [GenCall (gen_request_v2 example_env (js ''sk-test'') (destructure (req_body palla_rossa)))]
       (sanitize_v2 s)"
  by (simp add: handler_v2_def method_examples js_eq_iff js_Nil_iff example_env_def mock_def
      replies_text_def raw_examples Let_def)

lemma run_v1:
  "handler_v1 example_runtime example_env (mock (replies_text s) tts) palla_rossa =
     synthesize (\<lambda>errText. errText) example_env (mock (replies_text s) tts) (js ''sk-test'')
       [GenCall (gen_request_v1 example_env (js ''sk-test'') (destructure (req_body palla_rossa))
                   (JArr []))]
       (sanitize_v1 s)"
  by (simp add: handler_v1_def method_examples js_eq_iff js_Nil_iff example_env_def mock_def
      replies_text_def raw_examples Let_def destructure_palla_rossa recent_events_v1_def
      slice_last10_def)

lemma tts_failure_example:
  "tts_service (mock g (replies_failure s)) t
     = Resolves \<lparr> reply_ok = False, reply_text = s, reply_json = Inl (js ''Unexpected token''),
                  reply_arrayBuffer = [] \<rparr>"
  by (simp add: mock_def replies_failure_def)

lemma end_to_end_success:
  "fst (handler_v2 example_env palla_services palla_rossa)
   = json_reply 200
       [(js ''text'', JStr (js ''Che bella palla! Di che colore '' @ [0xE8] @ js ''?'')),
        (js ''audio'',
           JObj [(js ''mime'', JStr (js ''audio/mpeg'')), (js ''base64'', JStr (js ''AQI=''))])]"
proof -
  have "handler_v2 example_env palla_services palla_rossa =
          synthesize (slice0 2000) example_env palla_services (js ''sk-test'')
            [GenCall (gen_request_v2 example_env (js ''sk-test'')
                        (destructure (req_body palla_rossa)))]
            (sanitize_v2 che_bella_palla)"
    unfolding palla_services_def
    by (rule run_v2) (simp add: clean_palla_v2 nonempty_examples)
  then show ?thesis
    by (simp add: synthesize_result palla_services_def mock_def replies_bytes_def success_def
        clean_palla_v2 clean_palla_def base64_example del: base64.simps)
qed

lemma end_to_end_generation_failure:
  "handler_v2 example_env (mock (replies_failure (js ''rate limited'')) tts) palla_rossa
   = (generation_failed (js ''rate limited''),
      [GenCall (gen_request_v2 example_env (js ''sk-test'') (destructure (req_body palla_rossa)))])"
  by (simp add: handler_v2_def method_examples js_eq_iff js_Nil_iff example_env_def mock_def
      replies_failure_def slice0_def js_def Let_def)

lemma v2_blank_text_is_rejected:
  assumes "req_method req = js ''POST''" and "OPENAI_API_KEY e = Some apiKey" and "apiKey \<noteq> []"
    and "gen_service up (gen_request_v2 e apiKey (destructure (req_body req))) = Resolves r"
    and "reply_ok r" and "reply_json r = Inr textJson"
    and "sanitize_v2 (String_or_empty (rawText_v2 textJson)) = []"
  shows "fst (handler_v2 e up req) = empty_output
       \<and> status (fst (handler_v2 e up req)) = 500
       \<and> body_field (fst (handler_v2 e up req)) ''error'' = Some (JStr (js ''Empty AI text output''))
       \<and> tts_calls (snd (handler_v2 e up req)) = []"
  using assms
  by (simp add: handler_v2_def js_eq_iff Let_def status_values tts_calls_simps empty_output_def
      body_field_json_reply status_json_reply)

lemma v2_error_body_truncated:
  assumes "req_method req = js ''POST''" and "OPENAI_API_KEY e = Some apiKey" and "apiKey \<noteq> []"
    and "gen_service up (gen_request_v2 e apiKey (destructure (req_body req))) = Resolves r"
    and "\<not> reply_ok r"
  shows "status (fst (handler_v2 e up req)) = 500
       \<and> body_field (fst (handler_v2 e up req)) ''error'' = Some (JStr (js ''Text generation failed''))
       \<and> body_field (fst (handler_v2 e up req)) ''details'' = Some (JStr (take 2000 (reply_text r)))
       \<and> length (take 2000 (reply_text r)) \<le> 2000
       \<and> snd (handler_v2 e up req)
           = [GenCall (gen_request_v2 e apiKey (destructure (req_body req)))]"
  using assms
  by (simp add: handler_v2_def js_eq_iff Let_def generation_failed_def slice0_def
      body_field_json_reply status_json_reply)

lemma v1_generation_failure:
  assumes "req_method req = js ''POST''" and "OPENAI_API_KEY e = Some apiKey" and "apiKey \<noteq> []"
    and "recent_events_v1 rt (last_events (destructure (req_body req))) = Inr recent"
    and "gen_service up (gen_request_v1 e apiKey (destructure (req_body req)) recent) = Resolves r"
    and "\<not> reply_ok r"
  shows "handler_v1 rt e up req =
           (generation_failed (reply_text r),
            [GenCall (gen_request_v1 e apiKey (destructure (req_body req)) recent)])"
  using assms by (simp add: handler_v1_def Let_def)

lemma error_labels:
  "body_field method_not_allowed ''error'' = Some (JStr (js ''Method not allowed''))"
  "body_field (server_error x) ''error'' = Some (JStr (js ''Server error''))"
  "body_field (generation_failed d) ''error'' = Some (JStr (js ''Text generation failed''))"
  "body_field (tts_failed d c) ''error'' = Some (JStr (js ''TTS failed''))"
  "body_field missing_key_v1 ''error'' = Some (JStr (js ''Missing OPENAI_API_KEY''))"
  "body_field (success c a) ''error'' = None"
  by (simp_all add: method_not_allowed_def server_error_def generation_failed_def tts_failed_def
      missing_key_v1_def success_def body_field_json_reply js_eq_iff)

lemma v1_has_no_empty_output_answer:
  "body_field (fst (handler_v1 rt e up req)) ''error'' \<noteq> Some (JStr (js ''Empty AI text output''))"
  by (simp add: handler_v1_def synthesize_result error_labels js_eq_iff Let_def
      split: option.splits sum.splits outcome.splits)

lemma v1_last_events_without_slice:
  assumes "req_method req = js ''POST''" and "env_truthy (OPENAI_API_KEY e)"
    and "recent_events_v1 rt (last_events (destructure (req_body req))) = Inl x"
  shows "handler_v1 rt e up req = (server_error x, [])"
  using assms
  by (simp add: handler_v1_def env_truthy_def Let_def split: option.splits)

section \<open>Properties\<close>

subsection \<open>Empty generated text\<close>

text \<open>
  C1. A generation response whose extracted text is empty or only whitespace after
  sanitization is to end in a 500 "empty output" error, with no synthesis call. The second
  variant does so (\<open>v2_blank_text_is_rejected\<close>). The first variant has no such check
  and no such answer (\<open>v1_has_no_empty_output_answer\<close>): on the generated text of three
  spaces it sends the empty string to the synthesizer and answers 200 with an empty
  \<open>text\<close>.
\<close>

theorem v1_blank_text_is_synthesized:
  "handler_v1 example_runtime example_env
     (mock (replies_text (js ''   '')) (replies_bytes [0x01, 0x02])) palla_rossa
   = (success [] [0x01, 0x02],
      [GenCall (gen_request_v1 example_env (js ''sk-test'') (destructure (req_body palla_rossa))
                  (JArr [])),
       TtsCall (tts_request example_env (js ''sk-test'') [])])"
  unfolding run_v1 blank_sanitized
  by (simp add: synthesize_result mock_def replies_bytes_def)

subsection \<open>Failure of the generation service\<close>

text \<open>
  C2. A non-success response of the generation service is to end in a 500
  "Text generation failed" error whose \<open>details\<close> are at most the first 2000 characters of
  the upstream body, after the one generation call. The second variant does so
  (\<open>v2_error_body_truncated\<close>). The first variant returns the body whole
  (\<open>v1_generation_failure\<close>): on a body of 2001 characters its \<open>details\<close> have 2001.
\<close>

theorem v1_long_error_body_not_truncated:
  "body_field (fst (handler_v1 example_runtime example_env
                 (mock (replies_failure (replicate 2001 0x61)) (replies_bytes [])) palla_rossa))
     ''details'' = Some (JStr (replicate 2001 0x61))
   \<and> length (replicate 2001 (0x61 :: 16 word)) = 2001"
  by (simp add: handler_v1_def method_examples js_eq_iff js_Nil_iff example_env_def mock_def
      replies_failure_def Let_def destructure_palla_rossa recent_events_v1_def
      generation_failed_def body_field_json_reply)

subsection \<open>Sanitization\<close>

text \<open>
  C3. Sanitization (strip the emoji ranges, collapse whitespace, trim) is idempotent on
  every well-formed string, one with no unpaired surrogate, in both variants.
\<close>

theorem sanitize_idempotent_on_well_formed:
  assumes "well_formed s"
  shows "sanitize_v1 (sanitize_v1 s) = sanitize_v1 s
       \<and> sanitize_v2 (sanitize_v2 s) = sanitize_v2 s"
  using assms
  by (simp add: sanitize_v1_fixed sanitize_v2_fixed sanitize_v1_props sanitize_v2_props)

theorem sanitize_idempotent_on_well_formed_witness:
  "well_formed che_bella_palla
   \<and> sanitize_v1 (sanitize_v1 che_bella_palla) = sanitize_v1 che_bella_palla
   \<and> sanitize_v2 (sanitize_v2 che_bella_palla) = sanitize_v2 che_bella_palla
   \<and> sanitize_v2 che_bella_palla \<noteq> che_bella_palla"
proof -
  have "clean_palla \<noteq> che_bella_palla"
    by (simp add: clean_palla_def che_bella_palla_def js_def)
  then have "sanitize_v2 che_bella_palla \<noteq> che_bella_palla"
    by (simp only: clean_palla_v2 not_False_eq_True)
  with sanitize_idempotent_on_well_formed [OF well_formed_che_bella_palla]
    well_formed_che_bella_palla
  show ?thesis by simp
qed

text \<open>
  On a string with unpaired surrogates it is not: deleting U+FE0F from between a high and a
  low surrogate leaves the pair U+1F600, which a second application deletes.
\<close>

theorem sanitize_not_idempotent:
  "sanitize_v1 (sanitize_v1 [0xD83D, 0xFE0F, 0xDE00]) \<noteq> sanitize_v1 [0xD83D, 0xFE0F, 0xDE00]
   \<and> sanitize_v2 (sanitize_v2 [0xD83D, 0xFE0F, 0xDE00]) \<noteq> sanitize_v2 [0xD83D, 0xFE0F, 0xDE00]"
  by (simp add: sanitize_eval)

text \<open>
  C4. For every input string the output of \<open>stripEmojis\<close>, and of the whole
  sanitization, has no code point of U+2600..U+27BF and no U+FE0F; for every well-formed
  input it has no code point of U+1F300..U+1FAFF either.
\<close>

theorem sanitized_output_emoji_free:
  "symbol_free (stripEmojis_v1 s) \<and> symbol_free (stripEmojis_v2 s)
   \<and> symbol_free (sanitize_v1 s) \<and> symbol_free (sanitize_v2 s)
   \<and> (well_formed s \<longrightarrow>
        emoji_free (stripEmojis_v1 s) \<and> emoji_free (stripEmojis_v2 s)
      \<and> emoji_free (sanitize_v1 s) \<and> emoji_free (sanitize_v2 s))"
  by (simp add: symbol_freeI stripEmojis_unit_free sanitize_unit_free stripEmojis_v1_props
      stripEmojis_v2_props sanitize_v1_props sanitize_v2_props)

theorem sanitized_output_emoji_free_witness:
  "well_formed che_bella_palla \<and> \<not> emoji_free che_bella_palla
   \<and> emoji_free (stripEmojis_v1 che_bella_palla) \<and> emoji_free (stripEmojis_v2 che_bella_palla)
   \<and> emoji_free (sanitize_v1 che_bella_palla) \<and> emoji_free (sanitize_v2 che_bella_palla)"
proof -
  have "\<not> emoji_free che_bella_palla"
    by (simp add: che_bella_palla_def js_def emoji_free_def is_high_def is_low_def pair_cp_def
        pictograph_def)
  with sanitized_output_emoji_free [of che_bella_palla] well_formed_che_bella_palla
  show ?thesis by simp
qed

text \<open>
  Deleting U+2600 from between the two halves of U+1F300 leaves U+1F300 in the output.
\<close>

theorem sanitized_output_keeps_joined_surrogates:
  "code_points (stripEmojis_v1 [0xD83C, 0x2600, 0xDF00]) = [0x1F300]
   \<and> code_points (stripEmojis_v2 [0xD83C, 0x2600, 0xDF00]) = [0x1F300]
   \<and> \<not> emoji_free (sanitize_v1 [0xD83C, 0x2600, 0xDF00])
   \<and> \<not> emoji_free (sanitize_v2 [0xD83C, 0x2600, 0xDF00])"
  by (simp add: sanitize_eval emoji_free_def)

subsection \<open>The prompt and the user payload\<close>

text \<open>
  C5. For two requests that differ only in the transcript, the system instruction is the
  same string, and the generation calls are the same once \<open>child_spoken_signal\<close> is
  taken out of the user payload; \<open>child_spoken_signal\<close> holds the transcript.
\<close>

theorem system_prompt_independent_of_transcript:
  assumes "agree_except_transcript r1 r2"
  shows "sys_v1 (destructure (req_body r1)) = sys_v1 (destructure (req_body r2))
       \<and> sys_v2 (destructure (req_body r1)) = sys_v2 (destructure (req_body r2))
       \<and> map redact (gen_calls (snd (handler_v1 rt e up r1)))
           = map redact (gen_calls (snd (handler_v1 rt e up r2)))
       \<and> map redact (gen_calls (snd (handler_v2 e up r1)))
           = map redact (gen_calls (snd (handler_v2 e up r2)))
       \<and> list_all (\<lambda>g. get_prop (gen_user g) (js ''child_spoken_signal'')
                          = Some (transcript (destructure (req_body r1))))
           (gen_calls (snd (handler_v1 rt e up r1)) @ gen_calls (snd (handler_v2 e up r1)))"
proof -
  note d = agree_except_transcriptD [OF assms]
  have s1: "sys_v1 (destructure (req_body r1)) = sys_v1 (destructure (req_body r2))"
    by (rule sys_v1_cong) (rule d)+
  have s2: "sys_v2 (destructure (req_body r1)) = sys_v2 (destructure (req_body r2))"
    by (rule sys_v2_cong) (rule d)+
  have c1: "map redact (gen_calls (snd (handler_v1 rt e up r1)))
           = map redact (gen_calls (snd (handler_v1 rt e up r2)))"
    using d s1
    by (simp add: gen_calls_handler_v1 redact_gen_request_v1 drop_signal_user_payload
        split: sum.splits)
  have c2: "map redact (gen_calls (snd (handler_v2 e up r1)))
           = map redact (gen_calls (snd (handler_v2 e up r2)))"
    using d s2
    by (simp add: gen_calls_handler_v2 redact_gen_request_v2 drop_signal_user_payload)
  have c3: "list_all (\<lambda>g. get_prop (gen_user g) (js ''child_spoken_signal'')
                          = Some (transcript (destructure (req_body r1))))
           (gen_calls (snd (handler_v1 rt e up r1)) @ gen_calls (snd (handler_v2 e up r1)))"
    by (simp add: gen_calls_handler_v1 gen_calls_handler_v2 gen_request_v1_def
        gen_request_v2_def get_prop_user_payload split: sum.splits)
  show ?thesis by (intro conjI s1 s2 c1 c2 c3)
qed

theorem system_prompt_independent_of_transcript_witness:
  "agree_except_transcript palla_rossa palla_blu
   \<and> transcript (destructure (req_body palla_rossa)) \<noteq> transcript (destructure (req_body palla_blu))
   \<and> sys_v1 (destructure (req_body palla_rossa)) = sys_v1 (destructure (req_body palla_blu))
   \<and> sys_v2 (destructure (req_body palla_rossa)) = sys_v2 (destructure (req_body palla_blu))
   \<and> map redact (gen_calls (snd (handler_v1 example_runtime example_env palla_services palla_rossa)))
       = map redact (gen_calls (snd (handler_v1 example_runtime example_env palla_services palla_blu)))
   \<and> map redact (gen_calls (snd (handler_v2 example_env palla_services palla_rossa)))
       = map redact (gen_calls (snd (handler_v2 example_env palla_services palla_blu)))"
  using system_prompt_independent_of_transcript
          [OF agree_palla, of example_runtime example_env palla_services]
    agree_palla
  by (simp add: destructure_palla_rossa destructure_palla_blu js_eq_iff)




subsection \<open>Requests refused before any outbound call\<close>

text \<open>
  C7. A POST request with no credential configured (the variable unset or empty) is
  answered 500 with the error \<open>Missing OPENAI_API_KEY\<close>, and no outbound call is made.
\<close>

theorem missing_credential_no_outbound_call:
  assumes "req_method req = js ''POST''" and "\<not> env_truthy (OPENAI_API_KEY e)"
  shows "status (fst (handler_v1 rt e up req)) = 500
       \<and> body_field (fst (handler_v1 rt e up req)) ''error'' = Some (JStr (js ''Missing OPENAI_API_KEY''))
       \<and> snd (handler_v1 rt e up req) = []
       \<and> status (fst (handler_v2 e up req)) = 500
       \<and> body_field (fst (handler_v2 e up req)) ''error'' = Some (JStr (js ''Missing OPENAI_API_KEY''))
       \<and> snd (handler_v2 e up req) = []"
  using assms
  by (auto simp: handler_v1_def handler_v2_def missing_key_v1_def missing_key_v2_def
      body_field_json_reply status_json_reply env_truthy_def js_eq_iff Let_def split: option.splits)

theorem missing_credential_no_outbound_call_witness:
  "status (fst (handler_v1 example_runtime no_key_env (mock (Rejects []) (Rejects []))
                  palla_rossa)) = 500
   \<and> snd (handler_v1 example_runtime no_key_env (mock (Rejects []) (Rejects [])) palla_rossa) = []
   \<and> body_field (fst (handler_v2 no_key_env (mock (Rejects []) (Rejects [])) palla_rossa)) ''error''
       = Some (JStr (js ''Missing OPENAI_API_KEY''))
   \<and> snd (handler_v2 no_key_env (mock (Rejects []) (Rejects [])) palla_rossa) = []"
  using missing_credential_no_outbound_call
          [OF method_examples(1) key_examples(2), of example_runtime
              "mock (Rejects []) (Rejects [])"]
  by simp

text \<open>
  C8. A request whose method is not POST (and, in the variant with the health probe, not
  GET) is answered 405 with an \<open>error\<close> field, and no outbound call is made.
\<close>

theorem other_methods_rejected:
  assumes "req_method req \<noteq> js ''POST''"
  shows "status (fst (handler_v1 rt e up req)) = 405
       \<and> body_field (fst (handler_v1 rt e up req)) ''error'' = Some (JStr (js ''Method not allowed''))
       \<and> snd (handler_v1 rt e up req) = []
       \<and> (req_method req \<noteq> js ''GET'' \<longrightarrow>
            status (fst (handler_v2 e up req)) = 405
          \<and> body_field (fst (handler_v2 e up req)) ''error'' = Some (JStr (js ''Method not allowed''))
          \<and> snd (handler_v2 e up req) = [])"
  using assms
  by (simp add: handler_v1_def handler_v2_def method_not_allowed_def body_field_json_reply
      status_json_reply)

theorem other_methods_rejected_witness:
  "status (fst (handler_v1 example_runtime example_env (mock (Rejects []) (Rejects []))
                  \<lparr>req_method = js ''DELETE'', req_body = None\<rparr>)) = 405
   \<and> snd (handler_v1 example_runtime example_env (mock (Rejects []) (Rejects []))
            \<lparr>req_method = js ''DELETE'', req_body = None\<rparr>) = []
   \<and> status (fst (handler_v2 example_env (mock (Rejects []) (Rejects []))
                  \<lparr>req_method = js ''DELETE'', req_body = None\<rparr>)) = 405
   \<and> snd (handler_v2 example_env (mock (Rejects []) (Rejects []))
            \<lparr>req_method = js ''DELETE'', req_body = None\<rparr>) = []"
  using other_methods_rejected
          [of "\<lparr>req_method = js ''DELETE'', req_body = None\<rparr>" example_runtime example_env
              "mock (Rejects []) (Rejects [])"]
  by (simp add: js_eq_iff)

subsection \<open>The synthesis call\<close>

text \<open>
  C9. When the synthesis call made by a run is answered with a non-success response, the
  run answers 500 with the error \<open>TTS failed\<close>, a \<open>details\<close> field (the upstream body,
  cut to 2000 characters in the second variant) and, as \<open>text\<close>, the sanitized text that
  was sent to the synthesizer.
\<close>

theorem tts_failure_carries_clean_text:
  assumes "tts_service up t = Resolves r" and "\<not> reply_ok r"
  shows "(TtsCall t \<in> set (snd (handler_v1 rt e up req)) \<longrightarrow>
            status (fst (handler_v1 rt e up req)) = 500
          \<and> body_field (fst (handler_v1 rt e up req)) ''error'' = Some (JStr (js ''TTS failed''))
          \<and> body_field (fst (handler_v1 rt e up req)) ''details'' = Some (JStr (reply_text r))
          \<and> body_field (fst (handler_v1 rt e up req)) ''text'' = Some (JStr (tts_input t))
          \<and> clean_text_v1 rt up (snd (handler_v1 rt e up req)) = Some (tts_input t))
       \<and> (TtsCall t \<in> set (snd (handler_v2 e up req)) \<longrightarrow>
            status (fst (handler_v2 e up req)) = 500
          \<and> body_field (fst (handler_v2 e up req)) ''error'' = Some (JStr (js ''TTS failed''))
          \<and> body_field (fst (handler_v2 e up req)) ''details'' = Some (JStr (slice0 2000 (reply_text r)))
          \<and> body_field (fst (handler_v2 e up req)) ''text'' = Some (JStr (tts_input t))
          \<and> clean_text_v2 up (snd (handler_v2 e up req)) = Some (tts_input t))"
proof (intro conjI impI)
  assume a: "TtsCall t \<in> set (snd (handler_v1 rt e up req))"
  from handler_v1_after_tts [OF a] assms
  have s: "clean_text_v1 rt up (snd (handler_v1 rt e up req)) = Some (tts_input t)"
    and f: "fst (handler_v1 rt e up req) = tts_failed (reply_text r) (tts_input t)"
    by auto
  show "status (fst (handler_v1 rt e up req)) = 500"
    by (simp add: f tts_failed_def status_json_reply)
  show "body_field (fst (handler_v1 rt e up req)) ''error'' = Some (JStr (js ''TTS failed''))"
    by (simp add: f tts_failed_def body_field_json_reply)
  show "body_field (fst (handler_v1 rt e up req)) ''details'' = Some (JStr (reply_text r))"
    by (simp add: f tts_failed_def body_field_json_reply js_eq_iff)
  show "body_field (fst (handler_v1 rt e up req)) ''text'' = Some (JStr (tts_input t))"
    by (simp add: f tts_failed_def body_field_json_reply js_eq_iff)
  show "clean_text_v1 rt up (snd (handler_v1 rt e up req)) = Some (tts_input t)" by (rule s)
next
  assume a: "TtsCall t \<in> set (snd (handler_v2 e up req))"
  from handler_v2_after_tts [OF a] assms
  have s: "clean_text_v2 up (snd (handler_v2 e up req)) = Some (tts_input t)"
    and f: "fst (handler_v2 e up req) = tts_failed (slice0 2000 (reply_text r)) (tts_input t)"
    by auto
  show "status (fst (handler_v2 e up req)) = 500"
    by (simp add: f tts_failed_def status_json_reply)
  show "body_field (fst (handler_v2 e up req)) ''error'' = Some (JStr (js ''TTS failed''))"
    by (simp add: f tts_failed_def body_field_json_reply)
  show "body_field (fst (handler_v2 e up req)) ''details'' = Some (JStr (slice0 2000 (reply_text r)))"
    by (simp add: f tts_failed_def body_field_json_reply js_eq_iff)
  show "body_field (fst (handler_v2 e up req)) ''text'' = Some (JStr (tts_input t))"
    by (simp add: f tts_failed_def body_field_json_reply js_eq_iff)
  show "clean_text_v2 up (snd (handler_v2 e up req)) = Some (tts_input t)" by (rule s)
qed

theorem tts_failure_carries_clean_text_witness:
  "body_field (fst (handler_v2 example_env
                 (mock (replies_text che_bella_palla) (replies_failure (js ''voice not found'')))
                 palla_rossa)) ''text'' = Some (JStr clean_palla)
   \<and> body_field (fst (handler_v2 example_env
                 (mock (replies_text che_bella_palla) (replies_failure (js ''voice not found'')))
                 palla_rossa)) ''error'' = Some (JStr (js ''TTS failed''))
   \<and> body_field (fst (handler_v1 example_runtime example_env
                 (mock (replies_text che_bella_palla) (replies_failure (js ''voice not found'')))
                 palla_rossa)) ''text'' = Some (JStr clean_palla)"
proof -
  let ?up = "mock (replies_text che_bella_palla) (replies_failure (js ''voice not found''))"
  let ?t = "tts_request example_env (js ''sk-test'') clean_palla"
  have m2: "TtsCall ?t \<in> set (snd (handler_v2 example_env ?up palla_rossa))"
    by (simp add: run_v2 clean_palla_v2 nonempty_examples synthesize_result)
  have m1: "TtsCall ?t \<in> set (snd (handler_v1 example_runtime example_env ?up palla_rossa))"
    by (simp add: run_v1 clean_palla_v1 synthesize_result)
  have i: "tts_input ?t = clean_palla" by (simp add: tts_request_def)
  let ?r = "\<lparr> reply_ok = False, reply_text = js ''voice not found'',
              reply_json = Inl (js ''Unexpected token''), reply_arrayBuffer = [] \<rparr>"
  have h1: "tts_service ?up ?t = Resolves ?r" by (rule tts_failure_example)
  have h2: "\<not> reply_ok ?r" by simp
  from tts_failure_carries_clean_text
         [OF h1 h2, where rt = example_runtime and e = example_env and req = palla_rossa]
       m1 m2 i
  show ?thesis by simp
qed



end
